theory Spec2Isabelle
  imports Complex_Main
begin

section \<open>Conventions of the embedding\<close>

text \<open>
  The domain core of the shopping cart (value objects \<^verbatim>\<open>Money\<close>, \<^verbatim>\<open>Quantity\<close>,
  \<^verbatim>\<open>ProductId\<close>, \<^verbatim>\<open>SessionId\<close>, the entities \<^verbatim>\<open>CartItem\<close> and \<^verbatim>\<open>Cart\<close>, and
  \<^verbatim>\<open>CheckoutResult\<close>) is embedded function by function.

  \<^item> A TypeScript \<^verbatim>\<open>number\<close> is a binary64 value. Where the source hands every number
    it computes to \<^verbatim>\<open>createMoney\<close> or \<^verbatim>\<open>createQuantity\<close>, which reject what is not an
    integer in range, a number is a real and arithmetic is exact (type \<open>number\<close>);
    \<^verbatim>\<open>Number.isInteger\<close> is the test that the number equals its floor.
    \<^verbatim>\<open>createCheckoutResult\<close> checks nothing of what it computes: there a number is a
    binary64 value and the arithmetic is that of binary64 (type \<open>float64\<close>, section
    "Binary64 arithmetic").
  \<^item> A TypeScript \<^verbatim>\<open>string\<close> is a list of characters; the characters of the model are
    the code units below 256.
  \<^item> Every \<^verbatim>\<open>throw new Error(message)\<close> is the value \<open>Inl (Error message)\<close> with
    the very message of the source; a function that can throw returns \<open>error + 'a\<close>.
  \<^item> Every evaluation of \<^verbatim>\<open>new Date()\<close> is an argument of type \<open>Date\<close> of the function
    that evaluates it, and the identifier produced by \<^verbatim>\<open>uuidv4()\<close> is an argument too.
  \<^item> Objects are records. Where two object types of the source share a field name the
    fields of one of them carry a prefix.
\<close>

type_synonym number = real

type_synonym Date = nat

datatype error = Error string

definition bindE :: "error + 'a \<Rightarrow> ('a \<Rightarrow> error + 'b) \<Rightarrow> error + 'b" where
  "bindE m f = (case m of Inl e \<Rightarrow> Inl e | Inr x \<Rightarrow> f x)"

definition Number_isInteger :: "number \<Rightarrow> bool" where
  "Number_isInteger x = (of_int \<lfloor>x\<rfloor> = x)"

text \<open>\<^verbatim>\<open>Math.round\<close> on the exact numbers: the nearest integer, ties towards plus
  infinity.\<close>

definition Math_round :: "number \<Rightarrow> number" where
  "Math_round x = of_int \<lfloor>x + 1 / 2\<rfloor>"

text \<open>White space removed by \<^verbatim>\<open>String.prototype.trim\<close>, among the code units below 256:
  tab, line feed, vertical tab, form feed, carriage return, space and no-break space.\<close>

definition isWhiteSpace :: "char \<Rightarrow> bool" where
  "isWhiteSpace c =
     (c \<in> set [CHR 0x09, CHR 0x0A, CHR 0x0B, CHR 0x0C, CHR 0x0D, CHR '' '', CHR 0xA0])"

definition trim :: "string \<Rightarrow> string" where
  "trim s = rev (dropWhile isWhiteSpace (rev (dropWhile isWhiteSpace s)))"

text \<open>\<^verbatim>\<open>Array.prototype.findIndex\<close>: the first index whose element satisfies the
  predicate; the source's result \<^verbatim>\<open>-1\<close> is \<open>None\<close>.\<close>

fun findIndex :: "('a \<Rightarrow> bool) \<Rightarrow> 'a list \<Rightarrow> nat option" where
  "findIndex P [] = None"
| "findIndex P (x # xs) = (if P x then Some 0 else map_option Suc (findIndex P xs))"

text \<open>\<^verbatim>\<open>Array.prototype.map\<close> with a callback that can throw: the first exception ends
  the traversal.\<close>

fun mapE :: "('a \<Rightarrow> error + 'b) \<Rightarrow> 'a list \<Rightarrow> error + 'b list" where
  "mapE f [] = Inr []"
| "mapE f (x # xs) = bindE (f x) (\<lambda>y. bindE (mapE f xs) (\<lambda>ys. Inr (y # ys)))"


section \<open>Binary64 arithmetic\<close>

text \<open>
  The values of a \<^verbatim>\<open>number\<close>: the finite ones, the two infinities and \<^verbatim>\<open>NaN\<close>. A finite
  value is the real it denotes; the two zeros are one value (the source never divides,
  so their sign is not observable). The arithmetic of the language rounds the exact
  result to the nearest binary64 value, ties to the even significand: a finite binary64
  value is \<open>m * 2 ^ e\<close> with \<open>\<bar>m\<bar> < 2 ^ 53\<close> and \<open>-1074 \<le> e \<le> 971\<close>.
\<close>

datatype float64 = Finite real | PosInfinity | NegInfinity | NaN

definition pow2 :: "int \<Rightarrow> real" where
  "pow2 e = (if 0 \<le> e then 2 ^ nat e else 1 / 2 ^ nat (- e))"

text \<open>\<open>normExp n x 0\<close> is the \<open>k\<close> with \<open>2 ^ k \<le> x < 2 ^ (k + 1)\<close>, found by halving and
  doubling \<open>x\<close> at most \<open>n\<close> times. With 1100 steps every \<open>x\<close> that does not overflow and
  is above the least subnormal is reached; for the others the bound 1100 or -1100
  leads to the same rounding (an infinity, or a multiple of \<open>2 ^ -1074\<close>).\<close>

fun normExp :: "nat \<Rightarrow> real \<Rightarrow> int \<Rightarrow> int" where
  "normExp 0 x k = k"
| "normExp (Suc n) x k =
     (if 2 \<le> x then normExp n (x / 2) (k + 1)
      else if x < 1 then normExp n (x * 2) (k - 1)
      else k)"

definition binaryExponent :: "real \<Rightarrow> int" where
  "binaryExponent x = normExp 1100 \<bar>x\<bar> 0"

definition roundHalfEven :: "real \<Rightarrow> int" where
  "roundHalfEven x =
     (let f = \<lfloor>x\<rfloor>; d = x - of_int f in
      if d < 1 / 2 then f else if 1 / 2 < d then f + 1 else if even f then f else f + 1)"

text \<open>Rounding of a real to binary64: the significand has 53 bits, so the unit in the
  last place is \<open>2 ^ (k - 52)\<close>, and not below \<open>2 ^ -1074\<close> (subnormal values); a result
  of magnitude \<open>2 ^ 1024\<close> is an infinity.\<close>

definition round64 :: "real \<Rightarrow> float64" where
  "round64 x =
     (if x = 0 then Finite 0
      else
        let e = max (binaryExponent x - 52) (- 1074);
            y = of_int (roundHalfEven (\<bar>x\<bar> / pow2 e)) * pow2 e
        in if 2 ^ 1024 \<le> y then (if 0 < x then PosInfinity else NegInfinity)
           else Finite (if 0 < x then y else - y))"

text \<open>The operators \<^verbatim>\<open>+\<close> and \<^verbatim>\<open>*\<close> of the language on two numbers.\<close>

fun fadd :: "float64 \<Rightarrow> float64 \<Rightarrow> float64" where
  "fadd (Finite x) (Finite y) = round64 (x + y)"
| "fadd NaN b = NaN"
| "fadd a NaN = NaN"
| "fadd PosInfinity NegInfinity = NaN"
| "fadd NegInfinity PosInfinity = NaN"
| "fadd PosInfinity b = PosInfinity"
| "fadd a PosInfinity = PosInfinity"
| "fadd NegInfinity b = NegInfinity"
| "fadd a NegInfinity = NegInfinity"

fun fmul :: "float64 \<Rightarrow> float64 \<Rightarrow> float64" where
  "fmul (Finite x) (Finite y) = round64 (x * y)"
| "fmul NaN b = NaN"
| "fmul a NaN = NaN"
| "fmul (Finite x) PosInfinity =
     (if x = 0 then NaN else if 0 < x then PosInfinity else NegInfinity)"
| "fmul (Finite x) NegInfinity =
     (if x = 0 then NaN else if 0 < x then NegInfinity else PosInfinity)"
| "fmul PosInfinity (Finite y) =
     (if y = 0 then NaN else if 0 < y then PosInfinity else NegInfinity)"
| "fmul NegInfinity (Finite y) =
     (if y = 0 then NaN else if 0 < y then NegInfinity else PosInfinity)"
| "fmul PosInfinity PosInfinity = PosInfinity"
| "fmul PosInfinity NegInfinity = NegInfinity"
| "fmul NegInfinity PosInfinity = NegInfinity"
| "fmul NegInfinity NegInfinity = PosInfinity"

text \<open>\<^verbatim>\<open>Math.round\<close>: the nearest integer, ties towards plus infinity; the infinities and
  \<^verbatim>\<open>NaN\<close> are returned as they are. The result is computed exactly.\<close>

fun Math_round64 :: "float64 \<Rightarrow> float64" where
  "Math_round64 (Finite x) = Finite (of_int \<lfloor>x + 1 / 2\<rfloor>)"
| "Math_round64 a = a"


section \<open>Money.ts\<close>

datatype Currency = USD | EUR | GBP

text \<open>In the source a currency is its own name, a string literal type.\<close>

fun currencyName :: "Currency \<Rightarrow> string" where
  "currencyName USD = ''USD''"
| "currencyName EUR = ''EUR''"
| "currencyName GBP = ''GBP''"

record Money =
  amount :: number
  currency :: Currency

text \<open>The second parameter of \<^verbatim>\<open>createMoney\<close> and \<^verbatim>\<open>zeroMoney\<close> defaults to
  \<^verbatim>\<open>'USD'\<close>; a caller that leaves it out passes \<open>USD\<close>.\<close>

definition createMoney :: "number \<Rightarrow> Currency \<Rightarrow> error + Money" where
  "createMoney cents cur =
     (if \<not> Number_isInteger cents then Inl (Error ''Money amount must be an integer (cents)'')
      else if cents < 0 then Inl (Error ''Money amount cannot be negative'')
      else Inr \<lparr>amount = cents, currency = cur\<rparr>)"

definition createMoneyFromDollars :: "number \<Rightarrow> Currency \<Rightarrow> error + Money" where
  "createMoneyFromDollars dollars cur = (let cents = Math_round (dollars * 100) in createMoney cents cur)"

definition currencyMismatchAdd :: "Currency \<Rightarrow> Currency \<Rightarrow> error" where
  "currencyMismatchAdd a b =
     Error (''Currency mismatch: cannot add '' @ currencyName a @ '' and '' @ currencyName b)"

definition addMoney :: "Money \<Rightarrow> Money \<Rightarrow> error + Money" where
  "addMoney a b =
     (if currency a \<noteq> currency b then Inl (currencyMismatchAdd (currency a) (currency b))
      else createMoney (amount a + amount b) (currency a))"

definition subtractMoney :: "Money \<Rightarrow> Money \<Rightarrow> error + Money" where
  "subtractMoney a b =
     (if currency a \<noteq> currency b then
        Inl (Error (''Currency mismatch: cannot subtract '' @ currencyName (currency b) @
                    '' from '' @ currencyName (currency a)))
      else if amount a < amount b then Inl (Error ''Subtraction would result in negative money'')
      else createMoney (amount a - amount b) (currency a))"

definition multiplyMoney :: "Money \<Rightarrow> number \<Rightarrow> error + Money" where
  "multiplyMoney money q =
     (if q < 0 then Inl (Error ''Cannot multiply money by negative quantity'')
      else if \<not> Number_isInteger q then Inl (Error ''Quantity must be an integer'')
      else createMoney (amount money * q) (currency money))"

definition moneyEquals :: "Money \<Rightarrow> Money \<Rightarrow> bool" where
  "moneyEquals a b = (amount a = amount b \<and> currency a = currency b)"

definition zeroMoney :: "Currency \<Rightarrow> error + Money" where
  "zeroMoney cur = createMoney 0 cur"

definition toDollars :: "Money \<Rightarrow> number" where
  "toDollars money = amount money / 100"


section \<open>Quantity.ts\<close>

record Quantity =
  quantityValue :: number

definition MAX_QUANTITY :: number where
  "MAX_QUANTITY = 99"

definition MIN_QUANTITY :: number where
  "MIN_QUANTITY = 1"

definition createQuantity :: "number \<Rightarrow> error + Quantity" where
  "createQuantity v =
     (if \<not> Number_isInteger v then Inl (Error ''Quantity must be an integer'')
      else if v < MIN_QUANTITY then Inl (Error ''Quantity must be at least 1'')
      else if v > MAX_QUANTITY then Inl (Error ''Quantity cannot exceed 99'')
      else Inr \<lparr>quantityValue = v\<rparr>)"

definition addQuantity :: "Quantity \<Rightarrow> Quantity \<Rightarrow> error + Quantity" where
  "addQuantity a b =
     (let sum = quantityValue a + quantityValue b in
      if sum > MAX_QUANTITY then Inl (Error ''Combined quantity cannot exceed 99'')
      else createQuantity sum)"

definition quantityEquals :: "Quantity \<Rightarrow> Quantity \<Rightarrow> bool" where
  "quantityEquals a b = (quantityValue a = quantityValue b)"


section \<open>ProductId.ts and SessionId.ts\<close>

record ProductId =
  productIdValue :: string

record SessionId =
  sessionIdValue :: string

definition isAlphaNumeric :: "char \<Rightarrow> bool" where
  "isAlphaNumeric c =
     (c \<in> set (''abcdefghijklmnopqrstuvwxyz'' @ ''ABCDEFGHIJKLMNOPQRSTUVWXYZ'' @ ''0123456789''))"

text \<open>\<^verbatim>\<open>/^[a-zA-Z0-9-_]{1,50}$/.test(s)\<close> and \<^verbatim>\<open>/^[a-zA-Z0-9-]{1,100}$/.test(s)\<close>: the
  whole string consists of characters of the class and its length is in the range.\<close>

definition PRODUCT_ID_PATTERN_test :: "string \<Rightarrow> bool" where
  "PRODUCT_ID_PATTERN_test s =
     (1 \<le> length s \<and> length s \<le> 50 \<and>
      list_all (\<lambda>c. isAlphaNumeric c \<or> c = CHR ''-'' \<or> c = CHR ''_'') s)"

definition SESSION_ID_PATTERN_test :: "string \<Rightarrow> bool" where
  "SESSION_ID_PATTERN_test s =
     (1 \<le> length s \<and> length s \<le> 100 \<and> list_all (\<lambda>c. isAlphaNumeric c \<or> c = CHR ''-'') s)"

definition createProductId :: "string \<Rightarrow> error + ProductId" where
  "createProductId v =
     (if v = [] \<or> trim v = [] then Inl (Error ''ProductId cannot be empty'')
      else let trimmed = trim v in
        if \<not> PRODUCT_ID_PATTERN_test trimmed then
          Inl (Error ''ProductId must be 1-50 alphanumeric characters, hyphens, or underscores'')
        else Inr \<lparr>productIdValue = trimmed\<rparr>)"

definition productIdEquals :: "ProductId \<Rightarrow> ProductId \<Rightarrow> bool" where
  "productIdEquals a b = (productIdValue a = productIdValue b)"

definition createSessionId :: "string \<Rightarrow> error + SessionId" where
  "createSessionId v =
     (if v = [] \<or> trim v = [] then Inl (Error ''SessionId cannot be empty'')
      else let trimmed = trim v in
        if \<not> SESSION_ID_PATTERN_test trimmed then
          Inl (Error ''SessionId must be 1-100 alphanumeric characters or hyphens'')
        else Inr \<lparr>sessionIdValue = trimmed\<rparr>)"

definition sessionIdEquals :: "SessionId \<Rightarrow> SessionId \<Rightarrow> bool" where
  "sessionIdEquals a b = (sessionIdValue a = sessionIdValue b)"


section \<open>CartItem.ts\<close>

record CartItem =
  itemId :: string
  productId :: ProductId
  productName :: string
  unitPrice :: Money
  quantity :: Quantity
  addedAt :: Date

text \<open>The fields of \<^verbatim>\<open>CreateCartItemInput\<close>; the optional ones are options.\<close>

record CreateCartItemInput =
  input_productId :: string
  input_productName :: string
  unitPriceInCents :: number
  input_currency :: "Currency option"
  input_quantity :: number
  input_itemId :: "string option"

text \<open>The object literal evaluates its fields in order, so the first failing constructor
  among \<^verbatim>\<open>createProductId\<close>, \<^verbatim>\<open>createMoney\<close> and \<^verbatim>\<open>createQuantity\<close> decides the error.\<close>

definition createCartItem :: "Date \<Rightarrow> string \<Rightarrow> CreateCartItemInput \<Rightarrow> error + CartItem" where
  "createCartItem now uuidv4 input =
     (if input_productName input = [] \<or> trim (input_productName input) = [] then
        Inl (Error ''Product name cannot be empty'')
      else
        bindE (createProductId (input_productId input)) (\<lambda>pid.
        bindE (createMoney (unitPriceInCents input)
                 (case input_currency input of Some c \<Rightarrow> c | None \<Rightarrow> USD)) (\<lambda>price.
        bindE (createQuantity (input_quantity input)) (\<lambda>qty.
          Inr \<lparr>itemId = (case input_itemId input of Some i \<Rightarrow> i | None \<Rightarrow> uuidv4),
               productId = pid,
               productName = trim (input_productName input),
               unitPrice = price,
               quantity = qty,
               addedAt = now\<rparr>))))"

definition updateCartItemQuantity :: "CartItem \<Rightarrow> Quantity \<Rightarrow> CartItem" where
  "updateCartItemQuantity item newQuantity = item\<lparr>quantity := newQuantity\<rparr>"

definition increaseCartItemQuantity :: "CartItem \<Rightarrow> Quantity \<Rightarrow> error + CartItem" where
  "increaseCartItemQuantity item additionalQuantity =
     bindE (addQuantity (quantity item) additionalQuantity) (\<lambda>newQuantity.
       Inr (updateCartItemQuantity item newQuantity))"

definition calculateLineTotal :: "CartItem \<Rightarrow> error + Money" where
  "calculateLineTotal item = multiplyMoney (unitPrice item) (quantityValue (quantity item))"

definition isSameProduct :: "CartItem \<Rightarrow> CartItem \<Rightarrow> bool" where
  "isSameProduct a b = productIdEquals (productId a) (productId b)"


section \<open>Cart.ts\<close>

datatype CartStatus = Active | Checked_out | Abandoned

record Cart =
  sessionId :: SessionId
  items :: "CartItem list"
  status :: CartStatus
  createdAt :: Date
  updatedAt :: Date
  cartCurrency :: Currency

definition MAX_UNIQUE_ITEMS :: nat where
  "MAX_UNIQUE_ITEMS = 20"

definition createCart :: "Date \<Rightarrow> Date \<Rightarrow> string \<Rightarrow> Currency \<Rightarrow> error + Cart" where
  "createCart created updated sid cur =
     bindE (createSessionId sid) (\<lambda>s.
       Inr \<lparr>sessionId = s, items = [], status = Active,
            createdAt = created, updatedAt = updated, cartCurrency = cur\<rparr>)"

definition assertCartIsActive :: "Cart \<Rightarrow> error + unit" where
  "assertCartIsActive cart =
     (if status cart = Checked_out then Inl (Error ''Cannot modify a checked out cart'')
      else if status cart = Abandoned then Inl (Error ''Cannot modify an abandoned cart'')
      else Inr ())"

text \<open>\<^verbatim>\<open>addItemToCart\<close> looks for an item whose product id equals the \<^emph>\<open>raw\<close>
  \<^verbatim>\<open>input.productId\<close>. The new item of the other branch is built from
  \<^verbatim>\<open>{...input, currency: cart.currency}\<close>; \<open>added\<close> is the clock read by
  \<^verbatim>\<open>createCartItem\<close>, \<open>updated\<close> the one read for \<^verbatim>\<open>updatedAt\<close>.\<close>

definition addItemToCart ::
  "Date \<Rightarrow> Date \<Rightarrow> string \<Rightarrow> Cart \<Rightarrow> CreateCartItemInput \<Rightarrow> error + Cart" where
  "addItemToCart added updated uuidv4 cart input =
     bindE (assertCartIsActive cart) (\<lambda>_.
       case findIndex (\<lambda>item. productIdValue (productId item) = input_productId input)
              (items cart) of
         Some existingItemIndex \<Rightarrow>
           (let existingItem = items cart ! existingItemIndex in
            bindE (createQuantity (input_quantity input)) (\<lambda>additionalQuantity.
            bindE (increaseCartItemQuantity existingItem additionalQuantity) (\<lambda>updatedItem.
              Inr (cart\<lparr>items := (items cart)[existingItemIndex := updatedItem],
                        updatedAt := updated\<rparr>))))
       | None \<Rightarrow>
           if length (items cart) \<ge> MAX_UNIQUE_ITEMS then
             Inl (Error ''Cart cannot have more than 20 unique items'')
           else
             bindE (createCartItem added uuidv4
                      (input\<lparr>input_currency := Some (cartCurrency cart)\<rparr>)) (\<lambda>newItem.
               Inr (cart\<lparr>items := items cart @ [newItem], updatedAt := updated\<rparr>)))"

definition itemNotFound :: "string \<Rightarrow> error" where
  "itemNotFound iid = Error (''Item with ID '' @ iid @ '' not found in cart'')"

definition removeItemFromCart :: "Date \<Rightarrow> Cart \<Rightarrow> string \<Rightarrow> error + Cart" where
  "removeItemFromCart updated cart iid =
     bindE (assertCartIsActive cart) (\<lambda>_.
       case findIndex (\<lambda>item. itemId item = iid) (items cart) of
         None \<Rightarrow> Inl (itemNotFound iid)
       | Some itemIndex \<Rightarrow>
           Inr (cart\<lparr>items := filter (\<lambda>item. itemId item \<noteq> iid) (items cart),
                     updatedAt := updated\<rparr>))"

definition updateItemQuantity :: "Date \<Rightarrow> Cart \<Rightarrow> string \<Rightarrow> number \<Rightarrow> error + Cart" where
  "updateItemQuantity updated cart iid q =
     bindE (assertCartIsActive cart) (\<lambda>_.
       case findIndex (\<lambda>item. itemId item = iid) (items cart) of
         None \<Rightarrow> Inl (itemNotFound iid)
       | Some itemIndex \<Rightarrow>
           bindE (createQuantity q) (\<lambda>newQuantity.
             let existingItem = items cart ! itemIndex;
                 updatedItem = existingItem\<lparr>quantity := newQuantity\<rparr>
             in Inr (cart\<lparr>items := (items cart)[itemIndex := updatedItem],
                          updatedAt := updated\<rparr>)))"

text \<open>\<^verbatim>\<open>reduce\<close> with a callback that can throw: once an exception is raised the
  accumulator stays that error. The argument \<^verbatim>\<open>calculateLineTotal(item)\<close> is evaluated
  before \<^verbatim>\<open>addMoney\<close> is called.\<close>

definition calculateCartTotal :: "Cart \<Rightarrow> error + Money" where
  "calculateCartTotal cart =
     foldl (\<lambda>acc item. bindE acc (\<lambda>total.
              bindE (calculateLineTotal item) (\<lambda>lineTotal. addMoney total lineTotal)))
       (zeroMoney (cartCurrency cart)) (items cart)"


definition isCartEmpty :: "Cart \<Rightarrow> bool" where
  "isCartEmpty cart = (length (items cart) = 0)"

definition canCheckout :: "Cart \<Rightarrow> bool" where
  "canCheckout cart = (status cart = Active \<and> \<not> isCartEmpty cart)"

definition checkout :: "Date \<Rightarrow> Cart \<Rightarrow> error + Cart" where
  "checkout updated cart =
     (if \<not> canCheckout cart then
        (if status cart \<noteq> Active then Inl (Error ''Cart has already been checked out'')
         else if isCartEmpty cart then Inl (Error ''Cannot checkout an empty cart'')
         else Inl (Error ''Cart cannot be checked out''))
      else Inr (cart\<lparr>status := Checked_out, updatedAt := updated\<rparr>))"

definition clearCart :: "Date \<Rightarrow> Cart \<Rightarrow> error + Cart" where
  "clearCart updated cart =
     bindE (assertCartIsActive cart) (\<lambda>_. Inr (cart\<lparr>items := [], updatedAt := updated\<rparr>))"

definition findItemByProductId :: "Cart \<Rightarrow> string \<Rightarrow> CartItem option" where
  "findItemByProductId cart pid =
     find (\<lambda>item. productIdValue (productId item) = pid) (items cart)"

definition findItemById :: "Cart \<Rightarrow> string \<Rightarrow> CartItem option" where
  "findItemById cart iid = find (\<lambda>item. itemId item = iid) (items cart)"


section \<open>CheckoutResult.ts\<close>

record CheckoutLineItem =
  line_productId :: string
  line_productName :: string
  line_quantity :: number
  line_unitPriceInCents :: number
  lineTotalInCents :: number

text \<open>The three objects \<^verbatim>\<open>{ amount, currency }\<close> that \<^verbatim>\<open>createCheckoutResult\<close> freezes
  are of the source's type \<^verbatim>\<open>Money\<close> but do not come from \<^verbatim>\<open>createMoney\<close>: their amount
  is whatever binary64 value the arithmetic gave.\<close>

record MoneyLiteral =
  literalAmount :: float64
  literalCurrency :: Currency

record CheckoutResult =
  orderId :: string
  result_sessionId :: string
  result_items :: "CheckoutLineItem list"
  subtotal :: MoneyLiteral
  tax :: MoneyLiteral
  total :: MoneyLiteral
  itemCount :: float64
  checkoutAt :: Date

text \<open>The fields of \<^verbatim>\<open>CreateCheckoutResultInput\<close>; a missing \<^verbatim>\<open>taxRate\<close> is \<open>None\<close> and
  the destructuring default makes it 0. The tax rate is any binary64 value.\<close>

record CreateCheckoutResultInput =
  input_orderId :: string
  input_cart :: Cart
  input_taxRate :: "float64 option"

definition lineItem :: "CartItem \<Rightarrow> error + CheckoutLineItem" where
  "lineItem item =
     bindE (calculateLineTotal item) (\<lambda>lineTotal.
       Inr \<lparr>line_productId = productIdValue (productId item),
            line_productName = productName item,
            line_quantity = quantityValue (quantity item),
            line_unitPriceInCents = amount (unitPrice item),
            lineTotalInCents = amount lineTotal\<rparr>)"

text \<open>The line totals and quantities enter the sums as the binary64 values that hold them
  (\<open>round64\<close>); the two \<^verbatim>\<open>reduce\<close> calls add from the left, starting from 0.\<close>

definition createCheckoutResult :: "Date \<Rightarrow> CreateCheckoutResultInput \<Rightarrow> error + CheckoutResult" where
  "createCheckoutResult now input =
     (let cart = input_cart input;
          taxRate = (case input_taxRate input of Some r \<Rightarrow> r | None \<Rightarrow> Finite 0)
      in
      if status cart \<noteq> Checked_out then
        Inl (Error ''Cannot create checkout result from a cart that is not checked out'')
      else
        bindE (mapE lineItem (items cart)) (\<lambda>lineItems.
          let subtotalAmount =
                foldl (\<lambda>sum item. fadd sum (round64 (lineTotalInCents item))) (Finite 0) lineItems;
              taxAmount = Math_round64 (fmul subtotalAmount taxRate);
              totalAmount = fadd subtotalAmount taxAmount;
              itemCount =
                foldl (\<lambda>count item. fadd count (round64 (line_quantity item))) (Finite 0) lineItems
          in Inr \<lparr>orderId = input_orderId input,
                  result_sessionId = sessionIdValue (sessionId cart),
                  result_items = lineItems,
                  subtotal = \<lparr>literalAmount = subtotalAmount, literalCurrency = cartCurrency cart\<rparr>,
                  tax = \<lparr>literalAmount = taxAmount, literalCurrency = cartCurrency cart\<rparr>,
                  total = \<lparr>literalAmount = totalAmount, literalCurrency = cartCurrency cart\<rparr>,
                  itemCount = itemCount,
                  checkoutAt = now\<rparr>))"


section \<open>Carts reachable through the operations\<close>

text \<open>The carts obtained from \<^verbatim>\<open>createCart\<close> by calls of the five operations that
  return a cart, keeping the successful results.\<close>

inductive reachable :: "Cart \<Rightarrow> bool" where
  r_create: "createCart created updated sid cur = Inr c \<Longrightarrow> reachable c"
| r_add: "reachable c \<Longrightarrow> addItemToCart added updated uuidv4 c input = Inr c' \<Longrightarrow> reachable c'"
| r_remove: "reachable c \<Longrightarrow> removeItemFromCart updated c iid = Inr c' \<Longrightarrow> reachable c'"
| r_update: "reachable c \<Longrightarrow> updateItemQuantity updated c iid q = Inr c' \<Longrightarrow> reachable c'"
| r_clear: "reachable c \<Longrightarrow> clearCart updated c = Inr c' \<Longrightarrow> reachable c'"
| r_checkout: "reachable c \<Longrightarrow> checkout updated c = Inr c' \<Longrightarrow> reachable c'"


section \<open>Invariants and notions of the specification\<close>

text \<open>The invariants of \<^verbatim>\<open>Money\<close> and \<^verbatim>\<open>Quantity\<close> in the data model.\<close>

definition validMoney :: "Money \<Rightarrow> bool" where
  "validMoney m = (Number_isInteger (amount m) \<and> 0 \<le> amount m)"

definition validQuantity :: "Quantity \<Rightarrow> bool" where
  "validQuantity q =
     (Number_isInteger (quantityValue q) \<and> 1 \<le> quantityValue q \<and> quantityValue q \<le> 99)"

text \<open>The total of the spec, in its words: the left fold of \<^verbatim>\<open>addMoney\<close> over the line
  total of each item in order, from a starting amount. It is compared with
  \<open>calculateCartTotal\<close> below.\<close>

fun foldLineTotals :: "Money \<Rightarrow> CartItem list \<Rightarrow> error + Money" where
  "foldLineTotals acc [] = Inr acc"
| "foldLineTotals acc (item # rest) =
     bindE (calculateLineTotal item) (\<lambda>lineTotal.
     bindE (addMoney acc lineTotal) (\<lambda>acc'. foldLineTotals acc' rest))"

text \<open>The line total in minor units of the spec: unit price amount times quantity.\<close>

definition lineTotalMinor :: "CartItem \<Rightarrow> number" where
  "lineTotalMinor item = amount (unitPrice item) * quantityValue (quantity item)"

text \<open>An item whose unit price and quantity satisfy the invariants of their types.\<close>

definition validItem :: "CartItem \<Rightarrow> bool" where
  "validItem item = (validMoney (unitPrice item) \<and> validQuantity (quantity item))"


text \<open>The invariant of \<^verbatim>\<open>Money\<close> for an amount that is a binary64 value.\<close>

definition validAmount64 :: "float64 \<Rightarrow> bool" where
  "validAmount64 a = (case a of Finite x \<Rightarrow> Number_isInteger x \<and> 0 \<le> x | _ \<Rightarrow> False)"


text \<open>The currency rule of the domain model: every item is priced in the cart's
  currency.\<close>

definition currencyConsistent :: "Cart \<Rightarrow> bool" where
  "currencyConsistent cart =
     (\<forall>item\<in>set (items cart). currency (unitPrice item) = cartCurrency cart)"

text \<open>What every reachable cart satisfies (lemma \<open>reachable_invariant\<close> below).\<close>

definition cartInvariant :: "Cart \<Rightarrow> bool" where
  "cartInvariant cart =
     (length (items cart) \<le> 20 \<and> (\<forall>item\<in>set (items cart). validItem item) \<and>
      currencyConsistent cart)"


section \<open>Example values\<close>

text \<open>Items, carts and inputs in the style of the fixtures of the repository's tests.\<close>

definition exampleItem :: "string \<Rightarrow> string \<Rightarrow> number \<Rightarrow> number \<Rightarrow> CartItem" where
  "exampleItem iid pid price q =
     \<lparr>itemId = iid, productId = \<lparr>productIdValue = pid\<rparr>, productName = ''Test Product'',
      unitPrice = \<lparr>amount = price, currency = USD\<rparr>, quantity = \<lparr>quantityValue = q\<rparr>,
      addedAt = 0\<rparr>"

definition exampleCart :: "CartStatus \<Rightarrow> CartItem list \<Rightarrow> Cart" where
  "exampleCart st its =
     \<lparr>sessionId = \<lparr>sessionIdValue = ''session-123''\<rparr>, items = its, status = st,
      createdAt = 0, updatedAt = 0, cartCurrency = USD\<rparr>"

definition exampleInput :: "string \<Rightarrow> number \<Rightarrow> CreateCartItemInput" where
  "exampleInput pid q =
     \<lparr>input_productId = pid, input_productName = ''Test Product'', unitPriceInCents = 1000,
      input_currency = None, input_quantity = q, input_itemId = None\<rparr>"

definition twentyItems :: "CartItem list" where
  "twentyItems =
     map (\<lambda>c. exampleItem (''item-'' @ [c]) (''prod-'' @ [c]) 1000 1) ''abcdefghijklmnopqrst''"

definition exampleCheckoutInput :: "Cart \<Rightarrow> float64 option \<Rightarrow> CreateCheckoutResultInput" where
  "exampleCheckoutInput cart rate =
     \<lparr>input_orderId = ''order-1'', input_cart = cart, input_taxRate = rate\<rparr>"


text \<open>A price of \<open>2 ^ 1023\<close> minor units, a binary64 integer.\<close>

definition hugePrice :: number where
  "hugePrice = 2 ^ 1023"


section \<open>Facts about the value objects\<close>

lemma isInteger_iff_Ints: "Number_isInteger x \<longleftrightarrow> x \<in> \<int>"
proof
  assume "Number_isInteger x"
  then have eq: "of_int \<lfloor>x\<rfloor> = x" by (simp add: Number_isInteger_def)
  have "(of_int \<lfloor>x\<rfloor> :: real) \<in> \<int>" by (rule Ints_of_int)
  then show "x \<in> \<int>" by (simp only: eq)
next
  assume "x \<in> \<int>"
  then obtain z where "x = of_int z" by (rule Ints_cases)
  then show "Number_isInteger x" by (simp add: Number_isInteger_def)
qed

lemma idchar_not_space:
  "isAlphaNumeric c \<or> c = CHR ''-'' \<or> c = CHR ''_'' \<Longrightarrow> \<not> isWhiteSpace c"
  by (auto simp: isAlphaNumeric_def isWhiteSpace_def)

lemma trim_no_space:
  assumes "list_all (\<lambda>c. \<not> isWhiteSpace c) s"
  shows "trim s = s"
proof (cases s rule: rev_cases)
  case Nil
  then show ?thesis by (simp add: trim_def)
next
  case (snoc ys y)
  have 1: "dropWhile isWhiteSpace s = s"
    using assms by (cases s) auto
  have 2: "dropWhile isWhiteSpace (rev s) = rev s"
    using assms snoc by simp
  show ?thesis by (simp add: trim_def 1 2)
qed

lemma product_pattern_trim: "PRODUCT_ID_PATTERN_test s \<Longrightarrow> trim s = s"
proof -
  assume "PRODUCT_ID_PATTERN_test s"
  then have "\<forall>c\<in>set s. \<not> isWhiteSpace c"
    unfolding PRODUCT_ID_PATTERN_test_def list_all_iff using idchar_not_space by blast
  then show ?thesis by (intro trim_no_space) (simp add: list_all_iff)
qed

lemma session_pattern_trim: "SESSION_ID_PATTERN_test s \<Longrightarrow> trim s = s"
proof -
  assume "SESSION_ID_PATTERN_test s"
  then have "\<forall>c\<in>set s. \<not> isWhiteSpace c"
    unfolding SESSION_ID_PATTERN_test_def list_all_iff using idchar_not_space by blast
  then show ?thesis by (intro trim_no_space) (simp add: list_all_iff)
qed

lemma product_pattern_nonempty: "PRODUCT_ID_PATTERN_test s \<Longrightarrow> s \<noteq> []"
  unfolding PRODUCT_ID_PATTERN_test_def by auto

lemma session_pattern_nonempty: "SESSION_ID_PATTERN_test s \<Longrightarrow> s \<noteq> []"
  unfolding SESSION_ID_PATTERN_test_def by auto

lemma createProductId_Inr:
  "createProductId v = Inr p \<Longrightarrow> PRODUCT_ID_PATTERN_test (productIdValue p) \<and> productIdValue p = trim v"
  by (auto simp: createProductId_def Let_def split: if_splits)

lemma createProductId_valid:
  "PRODUCT_ID_PATTERN_test s \<Longrightarrow> createProductId s = Inr \<lparr>productIdValue = s\<rparr>"
  by (simp add: createProductId_def product_pattern_trim product_pattern_nonempty)

lemma createSessionId_Inr:
  "createSessionId v = Inr p \<Longrightarrow> SESSION_ID_PATTERN_test (sessionIdValue p) \<and> sessionIdValue p = trim v"
  by (auto simp: createSessionId_def Let_def split: if_splits)

lemma createSessionId_valid:
  "SESSION_ID_PATTERN_test s \<Longrightarrow> createSessionId s = Inr \<lparr>sessionIdValue = s\<rparr>"
  by (simp add: createSessionId_def session_pattern_trim session_pattern_nonempty)

lemma createProductId_example: "createProductId '' prod-001 '' = Inr \<lparr>productIdValue = ''prod-001''\<rparr>"
  by (simp add: createProductId_def trim_def isWhiteSpace_def PRODUCT_ID_PATTERN_test_def isAlphaNumeric_def)
lemma createSessionId_example: "createSessionId ''session-123'' = Inr \<lparr>sessionIdValue = ''session-123''\<rparr>"
  by (simp add: createSessionId_def trim_def isWhiteSpace_def SESSION_ID_PATTERN_test_def isAlphaNumeric_def)
lemma createQuantity_example: "createQuantity 5 = Inr \<lparr>quantityValue = 5\<rparr>"
  by (simp add: createQuantity_def Number_isInteger_def MIN_QUANTITY_def MAX_QUANTITY_def)
lemma createMoney_example: "createMoney 1000 EUR = Inr \<lparr>amount = 1000, currency = EUR\<rparr>"
  by (simp add: createMoney_def Number_isInteger_def)



section \<open>Facts about the cart operations\<close>

lemma bindE_simps [simp]: "bindE (Inl e) f = Inl e" "bindE (Inr x) f = f x"
  by (simp_all add: bindE_def)

lemma findIndex_None_iff: "findIndex P xs = None \<longleftrightarrow> (\<forall>x\<in>set xs. \<not> P x)"
  by (induction xs) auto

lemma findIndex_Some:
  "findIndex P xs = Some i \<Longrightarrow> i < length xs \<and> P (xs ! i)"
  by (induction xs arbitrary: i) (auto split: if_splits)

lemma findIndex_unique:
  "i < length xs \<Longrightarrow> P (xs ! i) \<Longrightarrow> \<forall>j<length xs. P (xs ! j) \<longrightarrow> j = i \<Longrightarrow>
   findIndex P xs = Some i"
proof (induction xs arbitrary: i)
  case Nil
  then show ?case by simp
next
  case (Cons x xs)
  show ?case
  proof (cases i)
    case 0
    with Cons.prems show ?thesis by simp
  next
    case (Suc k)
    have "\<not> P x"
    proof
      assume "P x"
      then have "P ((x # xs) ! 0)" by simp
      with Cons.prems(3) have "0 = i" by blast
      with Suc show False by simp
    qed
    moreover have "findIndex P xs = Some k"
    proof (rule Cons.IH)
      show "k < length xs" using Cons.prems(1) Suc by simp
      show "P (xs ! k)" using Cons.prems(2) Suc by simp
      show "\<forall>j<length xs. P (xs ! j) \<longrightarrow> j = k"
      proof (intro allI impI)
        fix j assume "j < length xs" "P (xs ! j)"
        then have "Suc j < length (x # xs)" "P ((x # xs) ! Suc j)" by simp_all
        with Cons.prems(3) have "Suc j = i" by blast
        with Suc show "j = k" by simp
      qed
    qed
    ultimately show ?thesis using Suc by simp
  qed
qed

lemma filter_update_unique:
  "i < length xs \<Longrightarrow> \<forall>j<length xs. P (xs ! j) \<longrightarrow> j = i \<Longrightarrow> P y \<Longrightarrow>
   filter P (xs[i := y]) = [y]"
proof (induction xs arbitrary: i)
  case Nil
  then show ?case by simp
next
  case (Cons x xs)
  show ?case
  proof (cases i)
    case 0
    have "\<forall>z\<in>set xs. \<not> P z"
    proof
      fix z assume "z \<in> set xs"
      then obtain j where j: "j < length xs" "xs ! j = z" by (auto simp: in_set_conv_nth)
      show "\<not> P z"
      proof
        assume "P z"
        with j have "Suc j < length (x # xs)" "P ((x # xs) ! Suc j)" by simp_all
        with Cons.prems(2) have "Suc j = i" by blast
        with 0 show False by simp
      qed
    qed
    then have "filter P xs = []" by (simp add: filter_empty_conv)
    with 0 Cons.prems(3) show ?thesis by simp
  next
    case (Suc k)
    have "\<not> P x"
    proof
      assume "P x"
      then have "P ((x # xs) ! 0)" by simp
      with Cons.prems(2) have "0 = i" by blast
      with Suc show False by simp
    qed
    moreover have "filter P (xs[k := y]) = [y]"
    proof (rule Cons.IH)
      show "k < length xs" using Cons.prems(1) Suc by simp
      show "\<forall>j<length xs. P (xs ! j) \<longrightarrow> j = k"
      proof (intro allI impI)
        fix j assume "j < length xs" "P (xs ! j)"
        then have "Suc j < length (x # xs)" "P ((x # xs) ! Suc j)" by simp_all
        with Cons.prems(2) have "Suc j = i" by blast
        with Suc show "j = k" by simp
      qed
      show "P y" by (rule Cons.prems(3))
    qed
    ultimately show ?thesis using Suc by simp
  qed
qed

lemma distinct_map_unique:
  "distinct (map f xs) \<Longrightarrow> i < length xs \<Longrightarrow> \<forall>j<length xs. f (xs ! j) = f (xs ! i) \<longrightarrow> j = i"
  by (auto simp: distinct_conv_nth)

lemma assertCartIsActive_Active: "status cart = Active \<Longrightarrow> assertCartIsActive cart = Inr ()"
  by (simp add: assertCartIsActive_def)

lemma createQuantity_valid:
  "Number_isInteger v \<Longrightarrow> 1 \<le> v \<Longrightarrow> v \<le> 99 \<Longrightarrow> createQuantity v = Inr \<lparr>quantityValue = v\<rparr>"
  by (simp add: createQuantity_def MIN_QUANTITY_def MAX_QUANTITY_def)

lemma isInteger_add: "Number_isInteger a \<Longrightarrow> Number_isInteger b \<Longrightarrow> Number_isInteger (a + b)"
  by (simp add: isInteger_iff_Ints)



lemma createMoney_valid:
  "Number_isInteger a \<Longrightarrow> 0 \<le> a \<Longrightarrow> createMoney a cur = Inr \<lparr>amount = a, currency = cur\<rparr>"
  by (simp add: createMoney_def)

lemma createMoney_Inr:
  "createMoney a cur = Inr m \<Longrightarrow> validMoney m \<and> amount m = a \<and> currency m = cur"
  by (auto simp: createMoney_def validMoney_def split: if_splits)

lemma isInteger_0 [simp]: "Number_isInteger 0"
  by (simp add: Number_isInteger_def)



lemma calculateLineTotal_Inr:
  "calculateLineTotal item = Inr m \<Longrightarrow>
     validMoney m \<and> amount m = lineTotalMinor item \<and> currency m = currency (unitPrice item)"
  by (auto simp: calculateLineTotal_def multiplyMoney_def lineTotalMinor_def
      dest: createMoney_Inr split: if_splits)

lemma foldl_Inl:
  "foldl (\<lambda>acc item. bindE acc (f item)) (Inl e) xs = Inl e"
  by (induction xs) simp_all

lemma foldl_foldLineTotals:
  "foldl (\<lambda>acc item. bindE acc (\<lambda>total.
            bindE (calculateLineTotal item) (\<lambda>lineTotal. addMoney total lineTotal)))
     (Inr m) xs = foldLineTotals m xs"
proof (induction xs arbitrary: m)
  case Nil
  show ?case by simp
next
  case (Cons x xs)
  show ?case
  proof (cases "calculateLineTotal x")
    case (Inl e)
    then show ?thesis using foldl_Inl [of "\<lambda>item total. bindE (calculateLineTotal item) (addMoney total)" e xs]
      by simp
  next
    case (Inr lt)
    show ?thesis
    proof (cases "addMoney m lt")
      case (Inl e)
      then show ?thesis
        using Inr foldl_Inl [of "\<lambda>item total. bindE (calculateLineTotal item) (addMoney total)" e xs]
        by simp
    next
      case (Inr m')
      then show ?thesis using \<open>calculateLineTotal x = Inr lt\<close> Cons.IH [of m'] by simp
    qed
  qed
qed

lemma isInteger_sum_list:
  "(\<forall>x\<in>set xs. Number_isInteger (f x)) \<Longrightarrow> Number_isInteger (sum_list (map f xs))"
  by (induction xs) (simp_all add: isInteger_add)



lemma calculateCartTotal_fold:
  "calculateCartTotal cart =
     bindE (zeroMoney (cartCurrency cart)) (\<lambda>zero. foldLineTotals zero (items cart))"
  by (simp add: calculateCartTotal_def zeroMoney_def createMoney_valid foldl_foldLineTotals)









lemma sum_list_nonneg_real: "(\<forall>x\<in>set xs. 0 \<le> f x) \<Longrightarrow> 0 \<le> sum_list (map f xs :: real list)"
  by (induction xs) simp_all

lemma createQuantity_Inr:
  "createQuantity v = Inr q \<Longrightarrow> validQuantity q \<and> quantityValue q = v"
  by (auto simp: createQuantity_def validQuantity_def MIN_QUANTITY_def MAX_QUANTITY_def
      split: if_splits)

lemma addQuantity_Inr: "addQuantity a b = Inr q \<Longrightarrow> validQuantity q"
  by (auto simp: addQuantity_def Let_def dest: createQuantity_Inr split: if_splits)

lemma increaseCartItemQuantity_Inr:
  assumes "increaseCartItemQuantity item a = Inr item'"
  shows "validQuantity (quantity item') \<and> unitPrice item' = unitPrice item \<and>
         productId item' = productId item"
proof -
  from assms obtain q where q: "addQuantity (quantity item) a = Inr q"
    by (cases "addQuantity (quantity item) a") (simp_all add: increaseCartItemQuantity_def)
  with assms have "item' = item\<lparr>quantity := q\<rparr>"
    by (simp add: increaseCartItemQuantity_def updateCartItemQuantity_def)
  with addQuantity_Inr [OF q] show ?thesis by simp
qed

lemma createCartItem_Inr:
  assumes "createCartItem now uuidv4 input = Inr item"
  shows "validItem item"
    and "currency (unitPrice item) = (case input_currency input of Some c \<Rightarrow> c | None \<Rightarrow> USD)"
    and "createProductId (input_productId input) = Inr (productId item)"
proof -
  let ?cur = "case input_currency input of Some c \<Rightarrow> c | None \<Rightarrow> USD"
  from assms have n: "\<not> (input_productName input = [] \<or> trim (input_productName input) = [])"
    by (auto simp: createCartItem_def split: if_splits)
  with assms obtain pid where pid: "createProductId (input_productId input) = Inr pid"
    by (cases "createProductId (input_productId input)") (simp_all add: createCartItem_def)
  with assms n obtain price where price: "createMoney (unitPriceInCents input) ?cur = Inr price"
    by (cases "createMoney (unitPriceInCents input) ?cur") (simp_all add: createCartItem_def)
  with assms n pid obtain qty where qty: "createQuantity (input_quantity input) = Inr qty"
    by (cases "createQuantity (input_quantity input)") (simp_all add: createCartItem_def)
  from assms n pid price qty
  have item: "unitPrice item = price" "quantity item = qty" "productId item = pid"
    by (auto simp: createCartItem_def)
  from createMoney_Inr [OF price] createQuantity_Inr [OF qty] item
  show "validItem item" by (simp add: validItem_def)
  from createMoney_Inr [OF price] item show "currency (unitPrice item) = ?cur" by simp
  from pid item show "createProductId (input_productId input) = Inr (productId item)" by simp
qed

lemma assertCartIsActive_Inr: "assertCartIsActive cart = Inr u \<Longrightarrow> status cart = Active"
  by (cases "status cart") (simp_all add: assertCartIsActive_def)

lemma addItemToCart_invariant:
  assumes "addItemToCart added updated uuidv4 cart input = Inr cart'" and "cartInvariant cart"
  shows "cartInvariant cart'"
proof -
  let ?P = "\<lambda>item. productIdValue (productId item) = input_productId input"
  from assms(1) have act: "assertCartIsActive cart = Inr ()"
    by (cases "assertCartIsActive cart") (simp_all add: addItemToCart_def)
  show ?thesis
  proof (cases "findIndex ?P (items cart)")
    case None
    with assms(1) act have len: "length (items cart) < 20"
      by (auto simp: addItemToCart_def MAX_UNIQUE_ITEMS_def split: if_splits)
    let ?input = "input\<lparr>input_currency := Some (cartCurrency cart)\<rparr>"
    from assms(1) act None len obtain newItem
      where new: "createCartItem added uuidv4 ?input = Inr newItem"
      by (cases "createCartItem added uuidv4 ?input")
         (simp_all add: addItemToCart_def MAX_UNIQUE_ITEMS_def)
    with assms(1) act None len
    have c': "cart' = cart\<lparr>items := items cart @ [newItem], updatedAt := updated\<rparr>"
      by (simp add: addItemToCart_def MAX_UNIQUE_ITEMS_def)
    from createCartItem_Inr [OF new]
    have "validItem newItem" "currency (unitPrice newItem) = cartCurrency cart" by simp_all
    with assms(2) len show ?thesis
      by (simp add: c' cartInvariant_def currencyConsistent_def)
  next
    case (Some i)
    then have i: "i < length (items cart)" using findIndex_Some by blast
    from assms(1) act Some obtain aq where aq: "createQuantity (input_quantity input) = Inr aq"
      by (cases "createQuantity (input_quantity input)") (simp_all add: addItemToCart_def)
    with assms(1) act Some obtain upd
      where upd: "increaseCartItemQuantity (items cart ! i) aq = Inr upd"
      by (cases "increaseCartItemQuantity (items cart ! i) aq") (simp_all add: addItemToCart_def)
    with assms(1) act Some aq
    have c': "cart' = cart\<lparr>items := (items cart)[i := upd], updatedAt := updated\<rparr>"
      by (simp add: addItemToCart_def)
    from i have old: "items cart ! i \<in> set (items cart)" by simp
    with assms(2) increaseCartItemQuantity_Inr [OF upd]
    have u: "validItem upd" "currency (unitPrice upd) = cartCurrency cart"
      by (simp_all add: cartInvariant_def currencyConsistent_def validItem_def)
    have "set ((items cart)[i := upd]) \<subseteq> insert upd (set (items cart))"
      by (rule set_update_subset_insert)
    with assms(2) u show ?thesis
      by (auto simp: c' cartInvariant_def currencyConsistent_def)
  qed
qed

lemma removeItemFromCart_invariant:
  assumes "removeItemFromCart updated cart iid = Inr cart'" and "cartInvariant cart"
  shows "cartInvariant cart'"
proof -
  from assms(1) have act: "assertCartIsActive cart = Inr ()"
    by (cases "assertCartIsActive cart") (simp_all add: removeItemFromCart_def)
  with assms(1)
  have c': "cart' = cart\<lparr>items := filter (\<lambda>item. itemId item \<noteq> iid) (items cart),
                          updatedAt := updated\<rparr>"
    by (cases "findIndex (\<lambda>item. itemId item = iid) (items cart)")
       (simp_all add: removeItemFromCart_def)
  have "length (filter (\<lambda>item. itemId item \<noteq> iid) (items cart)) \<le> 20"
    by (rule order_trans [OF length_filter_le]) (use assms(2) in \<open>simp add: cartInvariant_def\<close>)
  with assms(2) show ?thesis
    by (simp add: c' cartInvariant_def currencyConsistent_def)
qed

lemma updateItemQuantity_invariant:
  assumes "updateItemQuantity updated cart iid q = Inr cart'" and "cartInvariant cart"
  shows "cartInvariant cart'"
proof -
  from assms(1) have act: "assertCartIsActive cart = Inr ()"
    by (cases "assertCartIsActive cart") (simp_all add: updateItemQuantity_def)
  with assms(1) obtain i where idx: "findIndex (\<lambda>item. itemId item = iid) (items cart) = Some i"
    by (cases "findIndex (\<lambda>item. itemId item = iid) (items cart)")
       (simp_all add: updateItemQuantity_def)
  then have i: "i < length (items cart)" using findIndex_Some by blast
  from assms(1) act idx obtain nq where nq: "createQuantity q = Inr nq"
    by (cases "createQuantity q") (simp_all add: updateItemQuantity_def)
  let ?upd = "(items cart ! i)\<lparr>quantity := nq\<rparr>"
  from assms(1) act idx nq
  have c': "cart' = cart\<lparr>items := (items cart)[i := ?upd], updatedAt := updated\<rparr>"
    by (simp add: updateItemQuantity_def Let_def)
  from i have old: "items cart ! i \<in> set (items cart)" by simp
  with assms(2) createQuantity_Inr [OF nq]
  have u: "validItem ?upd" "currency (unitPrice ?upd) = cartCurrency cart"
    by (simp_all add: cartInvariant_def currencyConsistent_def validItem_def)
  have "set ((items cart)[i := ?upd]) \<subseteq> insert ?upd (set (items cart))"
    by (rule set_update_subset_insert)
  with assms(2) u show ?thesis
    by (auto simp: c' cartInvariant_def currencyConsistent_def)
qed

lemma reachable_invariant: "reachable c \<Longrightarrow> cartInvariant c"
proof (induction rule: reachable.induct)
  case (r_create created updated sid cur c)
  then show ?case
    by (cases "createSessionId sid")
       (auto simp: createCart_def cartInvariant_def currencyConsistent_def)
next
  case (r_add c added updated uuidv4 input c')
  then show ?case using addItemToCart_invariant by blast
next
  case (r_remove c updated iid c')
  then show ?case using removeItemFromCart_invariant by blast
next
  case (r_update c updated iid q c')
  then show ?case using updateItemQuantity_invariant by blast
next
  case (r_clear c updated c')
  then show ?case
    by (cases "assertCartIsActive c")
       (auto simp: clearCart_def cartInvariant_def currencyConsistent_def)
next
  case (r_checkout c updated c')
  then show ?case
    by (auto simp: checkout_def cartInvariant_def currencyConsistent_def split: if_splits)
qed

lemma reachable_length: "reachable c \<Longrightarrow> length (items c) \<le> 20"
  using reachable_invariant by (simp add: cartInvariant_def)

lemma createMoney_Inl:
  assumes "createMoney a cur = Inl e"
  shows "e = Error ''Money amount must be an integer (cents)'' \<or>
         e = Error ''Money amount cannot be negative''"
proof (cases "Number_isInteger a")
  case False
  with assms show ?thesis by (simp add: createMoney_def)
next
  case True
  show ?thesis
  proof (cases "a < 0")
    case True
    with assms \<open>Number_isInteger a\<close> show ?thesis by (simp add: createMoney_def)
  next
    case False
    with assms \<open>Number_isInteger a\<close> show ?thesis by (simp add: createMoney_def)
  qed
qed

lemma calculateLineTotal_Inl:
  assumes "calculateLineTotal item = Inl e"
  shows "e = Error ''Cannot multiply money by negative quantity'' \<or>
         e = Error ''Quantity must be an integer'' \<or>
         e = Error ''Money amount must be an integer (cents)'' \<or>
         e = Error ''Money amount cannot be negative''"
proof (cases "quantityValue (quantity item) < 0")
  case True
  with assms show ?thesis by (simp add: calculateLineTotal_def multiplyMoney_def)
next
  case False
  show ?thesis
  proof (cases "Number_isInteger (quantityValue (quantity item))")
    case False
    with assms \<open>\<not> quantityValue (quantity item) < 0\<close> show ?thesis
      by (simp add: calculateLineTotal_def multiplyMoney_def)
  next
    case True
    with assms \<open>\<not> quantityValue (quantity item) < 0\<close>
    have "createMoney (amount (unitPrice item) * quantityValue (quantity item))
            (currency (unitPrice item)) = Inl e"
      by (simp add: calculateLineTotal_def multiplyMoney_def)
    from createMoney_Inl [OF this] show ?thesis by blast
  qed
qed

lemma not_currencyMismatchAdd:
  "Error ''Cannot multiply money by negative quantity'' \<noteq> currencyMismatchAdd a b"
  "Error ''Quantity must be an integer'' \<noteq> currencyMismatchAdd a b"
  "Error ''Money amount must be an integer (cents)'' \<noteq> currencyMismatchAdd a b"
  "Error ''Money amount cannot be negative'' \<noteq> currencyMismatchAdd a b"
  by (simp_all add: currencyMismatchAdd_def)

lemma foldLineTotals_no_mismatch:
  "\<forall>item\<in>set xs. currency (unitPrice item) = currency m \<Longrightarrow>
   foldLineTotals m xs \<noteq> Inl (currencyMismatchAdd a b)"
proof (induction xs arbitrary: m)
  case Nil
  show ?case by simp
next
  case (Cons x xs)
  show ?case
  proof (cases "calculateLineTotal x")
    case (Inl e)
    from calculateLineTotal_Inl [OF Inl] have "e \<noteq> currencyMismatchAdd a b"
      by (elim disjE) (simp_all only: not_currencyMismatchAdd not_False_eq_True)
    with Inl show ?thesis by simp
  next
    case (Inr lt)
    from calculateLineTotal_Inr [OF Inr] Cons.prems have cur: "currency m = currency lt" by simp
    show ?thesis
    proof (cases "addMoney m lt")
      case (Inl e)
      with cur have "createMoney (amount m + amount lt) (currency m) = Inl e"
        by (simp add: addMoney_def)
      from createMoney_Inl [OF this] have "e \<noteq> currencyMismatchAdd a b"
        by (elim disjE) (simp_all only: not_currencyMismatchAdd not_False_eq_True)
      with Inl \<open>calculateLineTotal x = Inr lt\<close> show ?thesis by simp
    next
      case (Inr m')
      with cur have "createMoney (amount m + amount lt) (currency m) = Inr m'"
        by (simp add: addMoney_def)
      from createMoney_Inr [OF this] have "currency m' = currency m" by simp
      with Cons.prems have "\<forall>item\<in>set xs. currency (unitPrice item) = currency m'" by simp
      from Cons.IH [OF this] Inr \<open>calculateLineTotal x = Inr lt\<close> show ?thesis by simp
    qed
  qed
qed

lemma calculateCartTotal_no_mismatch:
  assumes "currencyConsistent cart"
  shows "calculateCartTotal cart \<noteq> Inl (currencyMismatchAdd a b)"
proof -
  let ?z = "\<lparr>amount = 0, currency = cartCurrency cart\<rparr>"
  have "\<forall>item\<in>set (items cart). currency (unitPrice item) = currency ?z"
    using assms by (simp add: currencyConsistent_def)
  from foldLineTotals_no_mismatch [OF this]
  show ?thesis by (simp add: calculateCartTotal_fold zeroMoney_def createMoney_valid)
qed

lemma foldLineTotals_Inr_valid:
  "validMoney m \<Longrightarrow> foldLineTotals m xs = Inr m' \<Longrightarrow> validMoney m'"
proof (induction xs arbitrary: m)
  case Nil
  then show ?case by simp
next
  case (Cons x xs)
  from Cons.prems(2) obtain lt where lt: "calculateLineTotal x = Inr lt"
    by (cases "calculateLineTotal x") simp_all
  with Cons.prems(2) obtain acc where acc: "addMoney m lt = Inr acc"
    by (cases "addMoney m lt") simp_all
  then have "createMoney (amount m + amount lt) (currency m) = Inr acc"
    by (simp add: addMoney_def split: if_splits)
  then have "validMoney acc" using createMoney_Inr by blast
  moreover have "foldLineTotals acc xs = Inr m'" using Cons.prems(2) lt acc by simp
  ultimately show ?case by (rule Cons.IH)
qed

lemma calculateCartTotal_Inr_valid:
  assumes "calculateCartTotal cart = Inr m"
  shows "validMoney m"
proof -
  have "validMoney \<lparr>amount = 0, currency = cartCurrency cart\<rparr>" by (simp add: validMoney_def)
  moreover have "foldLineTotals \<lparr>amount = 0, currency = cartCurrency cart\<rparr> (items cart) = Inr m"
    using assms by (simp add: calculateCartTotal_fold zeroMoney_def createMoney_valid)
  ultimately show ?thesis by (rule foldLineTotals_Inr_valid)
qed

lemma addMoney_Inr: "addMoney a b = Inr m \<Longrightarrow> validMoney m"
  by (auto simp: addMoney_def dest: createMoney_Inr split: if_splits)

lemma subtractMoney_Inr: "subtractMoney a b = Inr m \<Longrightarrow> validMoney m"
  by (auto simp: subtractMoney_def dest: createMoney_Inr split: if_splits)

lemma multiplyMoney_Inr: "multiplyMoney a q = Inr m \<Longrightarrow> validMoney m"
  by (auto simp: multiplyMoney_def dest: createMoney_Inr split: if_splits)

lemma validated_money_operations:
  "(createMoney cents cur1 = Inr m1 \<longrightarrow> validMoney m1) \<and>
   (createMoneyFromDollars dollars cur2 = Inr m2 \<longrightarrow> validMoney m2) \<and>
   (zeroMoney cur3 = Inr m3 \<longrightarrow> validMoney m3) \<and>
   (addMoney a4 b4 = Inr m4 \<longrightarrow> validMoney m4) \<and>
   (subtractMoney a5 b5 = Inr m5 \<longrightarrow> validMoney m5) \<and>
   (multiplyMoney a6 q6 = Inr m6 \<longrightarrow> validMoney m6) \<and>
   (calculateLineTotal item7 = Inr m7 \<longrightarrow> validMoney m7) \<and>
   (calculateCartTotal cart8 = Inr m8 \<longrightarrow> validMoney m8) \<and>
   (createCartItem now9 uuidv4 input9 = Inr item9 \<longrightarrow> validMoney (unitPrice item9)) \<and>
   (reachable cart10 \<longrightarrow> (\<forall>item\<in>set (items cart10). validMoney (unitPrice item)))"
proof (intro conjI impI)
  show "validMoney m1" if "createMoney cents cur1 = Inr m1"
    using createMoney_Inr [OF that] by simp
  show "validMoney m2" if "createMoneyFromDollars dollars cur2 = Inr m2"
    using that createMoney_Inr by (auto simp: createMoneyFromDollars_def Let_def)
  show "validMoney m3" if "zeroMoney cur3 = Inr m3"
    using that createMoney_Inr by (auto simp: zeroMoney_def)
  show "validMoney m4" if "addMoney a4 b4 = Inr m4"
    using that by (rule addMoney_Inr)
  show "validMoney m5" if "subtractMoney a5 b5 = Inr m5"
    using that by (rule subtractMoney_Inr)
  show "validMoney m6" if "multiplyMoney a6 q6 = Inr m6"
    using that by (rule multiplyMoney_Inr)
  show "validMoney m7" if "calculateLineTotal item7 = Inr m7"
    using calculateLineTotal_Inr [OF that] by simp
  show "validMoney m8" if "calculateCartTotal cart8 = Inr m8"
    using that by (rule calculateCartTotal_Inr_valid)
  show "validMoney (unitPrice item9)" if "createCartItem now9 uuidv4 input9 = Inr item9"
    using createCartItem_Inr(1) [OF that] by (simp add: validItem_def)
  show "\<forall>item\<in>set (items cart10). validMoney (unitPrice item)" if "reachable cart10"
    using reachable_invariant [OF that] by (simp add: cartInvariant_def validItem_def)
qed

lemma addItemToCart_merge_unique:
  assumes "status cart = Active"
    and "i < length (items cart)"
    and "productIdValue (productId (items cart ! i)) = P"
    and "\<forall>j<length (items cart). productIdValue (productId (items cart ! j)) = P \<longrightarrow> j = i"
    and "validQuantity (quantity (items cart ! i))"
    and "Number_isInteger q" and "1 \<le> q" and "q \<le> 99"
    and "input_productId input = P" and "input_quantity input = q"
  shows "let existing = items cart ! i;
             combined = quantityValue (quantity existing) + q;
             merged = existing\<lparr>quantity := \<lparr>quantityValue = combined\<rparr>\<rparr>
         in if combined \<le> 99 then
              addItemToCart added updated uuidv4 cart input =
                Inr (cart\<lparr>items := (items cart)[i := merged], updatedAt := updated\<rparr>) \<and>
              filter (\<lambda>item. productIdValue (productId item) = P) ((items cart)[i := merged]) =
                [merged]
            else addItemToCart added updated uuidv4 cart input =
                   Inl (Error ''Combined quantity cannot exceed 99'')"
proof -
  define existing where "existing = items cart ! i"
  define combined where "combined = quantityValue (quantity existing) + q"
  define merged where "merged = existing\<lparr>quantity := \<lparr>quantityValue = combined\<rparr>\<rparr>"
  have idx: "findIndex (\<lambda>item. productIdValue (productId item) = input_productId input)
               (items cart) = Some i"
    unfolding assms(9) using assms(2,3,4) by (intro findIndex_unique) blast+
  have cq: "createQuantity (input_quantity input) = Inr \<lparr>quantityValue = q\<rparr>"
    using assms(6,7,8,10) by (simp add: createQuantity_valid)
  have ex: "Number_isInteger (quantityValue (quantity existing))"
       "1 \<le> quantityValue (quantity existing)"
    using assms(5) by (simp_all add: validQuantity_def existing_def)
  show ?thesis
  proof (cases "combined \<le> 99")
    case True
    have "Number_isInteger combined" "1 \<le> combined"
      using ex assms(6,7) by (simp_all add: combined_def isInteger_add)
    then have "createQuantity combined = Inr \<lparr>quantityValue = combined\<rparr>"
      using True by (simp add: createQuantity_valid)
    then have "increaseCartItemQuantity existing \<lparr>quantityValue = q\<rparr> = Inr merged"
      using True
      by (simp add: increaseCartItemQuantity_def addQuantity_def updateCartItemQuantity_def
          MAX_QUANTITY_def merged_def combined_def)
    then have 1: "addItemToCart added updated uuidv4 cart input =
                 Inr (cart\<lparr>items := (items cart)[i := merged], updatedAt := updated\<rparr>)"
      using idx cq assms(1)
      by (simp add: addItemToCart_def assertCartIsActive_Active existing_def)
    have "productIdValue (productId merged) = P"
      using assms(3) by (simp add: merged_def existing_def)
    then have 2: "filter (\<lambda>item. productIdValue (productId item) = P) ((items cart)[i := merged]) =
                [merged]"
      using assms(2,4) by (intro filter_update_unique) blast+
    from True 1 2 show ?thesis
      unfolding Let_def existing_def [symmetric] combined_def [symmetric] merged_def [symmetric]
      by simp
  next
    case False
    then have "increaseCartItemQuantity existing \<lparr>quantityValue = q\<rparr> =
                 Inl (Error ''Combined quantity cannot exceed 99'')"
      by (simp add: increaseCartItemQuantity_def addQuantity_def MAX_QUANTITY_def combined_def)
    then have "addItemToCart added updated uuidv4 cart input =
                 Inl (Error ''Combined quantity cannot exceed 99'')"
      using idx cq assms(1)
      by (simp add: addItemToCart_def assertCartIsActive_Active existing_def)
    with False show ?thesis
      unfolding Let_def existing_def [symmetric] combined_def [symmetric] merged_def [symmetric]
      by simp
  qed
qed


section \<open>Facts about binary64 arithmetic and the checkout result\<close>

lemma normExp_numeral:
  "normExp (numeral n) x k =
     (if 2 \<le> x then normExp (pred_numeral n) (x / 2) (k + 1)
      else if x < 1 then normExp (pred_numeral n) (x * 2) (k - 1)
      else k)"
  by (simp add: numeral_eq_Suc)








lemmas float_eval_defs =
  round64_def binaryExponent_def normExp_numeral pow2_def roundHalfEven_def Let_def

lemma normExp_power2: "j \<le> n \<Longrightarrow> normExp n (2 ^ j) k = k + int j"
proof (induction n arbitrary: j k)
  case 0
  then show ?case by simp
next
  case (Suc n)
  show ?case
  proof (cases j)
    case 0
    then show ?thesis by simp
  next
    case (Suc i)
    with Suc.prems have "i \<le> n" by simp
    from Suc.IH [OF this, of "k + 1"] Suc show ?thesis by simp
  qed
qed

lemma round64_overflow_example: "round64 (2 ^ 1023 + 2 ^ 1023) = PosInfinity"
proof -
  have x: "(2::real) ^ 1023 + 2 ^ 1023 = 2 ^ 1024" by simp
  have e: "binaryExponent (2 ^ 1024) = 1024"
    using normExp_power2 [of 1024 1100 0] by (simp add: binaryExponent_def)
  show ?thesis
    unfolding x round64_def Let_def e by (simp add: pow2_def roundHalfEven_def)
qed






section \<open>Evaluations of the examples\<close>

lemmas eval_defs =
  createCart_def createSessionId_def SESSION_ID_PATTERN_test_def
  addItemToCart_def assertCartIsActive_def createCartItem_def createProductId_def trim_def
  isWhiteSpace_def PRODUCT_ID_PATTERN_test_def isAlphaNumeric_def createMoney_def
  createQuantity_def Number_isInteger_def MIN_QUANTITY_def MAX_QUANTITY_def
  MAX_UNIQUE_ITEMS_def exampleCart_def exampleItem_def exampleInput_def

lemma createCart_example: "createCart 0 0 ''session-123'' USD = Inr (exampleCart Active [])"
  by (simp add: eval_defs)

lemma addItemToCart_example_p1:
  "addItemToCart 0 0 ''item-1'' (exampleCart Active []) (exampleInput ''p1'' 1) =
     Inr (exampleCart Active [exampleItem ''item-1'' ''p1'' 1000 1])"
  by (simp add: eval_defs)

lemma addItemToCart_example_p1_untrimmed:
  "addItemToCart 0 0 ''item-2'' (exampleCart Active [exampleItem ''item-1'' ''p1'' 1000 1])
     (exampleInput '' p1'' 1) =
     Inr (exampleCart Active
            [exampleItem ''item-1'' ''p1'' 1000 1, exampleItem ''item-2'' ''p1'' 1000 1])"
  by (simp add: eval_defs)

lemma addItemToCart_example_EUR:
  "addItemToCart 0 0 ''item-1'' (exampleCart Active [])
     ((exampleInput ''prod-001'' 2)\<lparr>input_currency := Some EUR\<rparr>) =
     Inr (exampleCart Active [exampleItem ''item-1'' ''prod-001'' 1000 2])"
  by (simp add: eval_defs)

lemma twentyItems_ids:
  "map (\<lambda>item. productIdValue (productId item)) twentyItems =
     [''prod-a'', ''prod-b'', ''prod-c'', ''prod-d'', ''prod-e'', ''prod-f'',
      ''prod-g'', ''prod-h'', ''prod-i'', ''prod-j'', ''prod-k'', ''prod-l'',
      ''prod-m'', ''prod-n'', ''prod-o'', ''prod-p'', ''prod-q'', ''prod-r'',
      ''prod-s'', ''prod-t'']"
  by (simp add: twentyItems_def exampleItem_def)

lemma twentyItems_nth_7: "twentyItems ! 7 = exampleItem ''item-h'' ''prod-h'' 1000 1"
  by (simp add: twentyItems_def)

lemmas checkout_eval_defs =
  createCheckoutResult_def exampleCheckoutInput_def lineItem_def calculateLineTotal_def
  multiplyMoney_def createMoney_def Number_isInteger_def exampleCart_def exampleItem_def
  float_eval_defs

lemma createCheckoutResult_example_tenth:
  "createCheckoutResult 9
     (exampleCheckoutInput (exampleCart Checked_out [exampleItem ''item-1'' ''prod-001'' 1000 1])
        (Some (Finite (3602879701896397 / 36028797018963968)))) =
     Inr \<lparr>orderId = ''order-1'', result_sessionId = ''session-123'',
          result_items = [\<lparr>line_productId = ''prod-001'', line_productName = ''Test Product'',
                           line_quantity = 1, line_unitPriceInCents = 1000,
                           lineTotalInCents = 1000\<rparr>],
          subtotal = \<lparr>literalAmount = Finite 1000, literalCurrency = USD\<rparr>,
          tax = \<lparr>literalAmount = Finite 100, literalCurrency = USD\<rparr>,
          total = \<lparr>literalAmount = Finite 1100, literalCurrency = USD\<rparr>,
          itemCount = Finite 1, checkoutAt = 9\<rparr>"
  by (simp add: checkout_eval_defs)

lemma createCheckoutResult_example_negative:
  "createCheckoutResult 9
     (exampleCheckoutInput (exampleCart Checked_out [exampleItem ''item-1'' ''prod-001'' 1000 1])
        (Some (Finite (- 1 / 2)))) =
     Inr \<lparr>orderId = ''order-1'', result_sessionId = ''session-123'',
          result_items = [\<lparr>line_productId = ''prod-001'', line_productName = ''Test Product'',
                           line_quantity = 1, line_unitPriceInCents = 1000,
                           lineTotalInCents = 1000\<rparr>],
          subtotal = \<lparr>literalAmount = Finite 1000, literalCurrency = USD\<rparr>,
          tax = \<lparr>literalAmount = Finite (- 500), literalCurrency = USD\<rparr>,
          total = \<lparr>literalAmount = Finite 500, literalCurrency = USD\<rparr>,
          itemCount = Finite 1, checkoutAt = 9\<rparr>"
  by (simp add: checkout_eval_defs)



lemma hugePrice_facts:
  "Number_isInteger hugePrice" "\<not> hugePrice < 0" "0 \<le> hugePrice" "hugePrice \<noteq> 0"
  by (simp_all add: hugePrice_def Number_isInteger_def)

lemma round64_hugePrice: "round64 hugePrice = Finite hugePrice"
proof -
  have e: "binaryExponent (2 ^ 1023) = 1023"
    using normExp_power2 [of 1023 1100 0] by (simp add: binaryExponent_def)
  show ?thesis
    unfolding hugePrice_def round64_def Let_def e by (simp add: pow2_def roundHalfEven_def)
qed

lemma round64_hugePrice_twice:
  "round64 (hugePrice + hugePrice) = PosInfinity" "round64 (2 * hugePrice) = PosInfinity"
proof -
  show 1: "round64 (hugePrice + hugePrice) = PosInfinity"
    unfolding hugePrice_def by (rule round64_overflow_example)
  have "2 * hugePrice = hugePrice + hugePrice" by simp
  with 1 show "round64 (2 * hugePrice) = PosInfinity" by (simp only:)
qed

lemma round64_small: "round64 1 = Finite 1" "round64 2 = Finite 2"
  by (simp_all add: float_eval_defs)

lemma isInteger_1: "Number_isInteger 1"
  by (simp add: Number_isInteger_def)

lemma createCheckoutResult_example_overflow:
  "createCheckoutResult 9
     (exampleCheckoutInput
        (exampleCart Checked_out
           [exampleItem ''item-1'' ''prod-001'' hugePrice 1,
            exampleItem ''item-2'' ''prod-002'' hugePrice 1])
        None) =
     Inr \<lparr>orderId = ''order-1'', result_sessionId = ''session-123'',
          result_items = [\<lparr>line_productId = ''prod-001'', line_productName = ''Test Product'',
                           line_quantity = 1, line_unitPriceInCents = hugePrice,
                           lineTotalInCents = hugePrice\<rparr>,
                          \<lparr>line_productId = ''prod-002'', line_productName = ''Test Product'',
                           line_quantity = 1, line_unitPriceInCents = hugePrice,
                           lineTotalInCents = hugePrice\<rparr>],
          subtotal = \<lparr>literalAmount = PosInfinity, literalCurrency = USD\<rparr>,
          tax = \<lparr>literalAmount = NaN, literalCurrency = USD\<rparr>,
          total = \<lparr>literalAmount = NaN, literalCurrency = USD\<rparr>,
          itemCount = Finite 2, checkoutAt = 9\<rparr>"
  by (simp add: createCheckoutResult_def exampleCheckoutInput_def lineItem_def
      calculateLineTotal_def multiplyMoney_def createMoney_def exampleCart_def exampleItem_def
      Let_def hugePrice_facts round64_hugePrice round64_hugePrice_twice round64_small
      isInteger_1)

lemma addItemToCart_example_p1_again:
  "addItemToCart 0 0 ''item-3''
     (exampleCart Active
        [exampleItem ''item-1'' ''p1'' 1000 1, exampleItem ''item-2'' ''p1'' 1000 1])
     (exampleInput ''p1'' 3) =
     Inr (exampleCart Active
            [exampleItem ''item-1'' ''p1'' 1000 4, exampleItem ''item-2'' ''p1'' 1000 1])"
  by (simp add: eval_defs increaseCartItemQuantity_def addQuantity_def
      updateCartItemQuantity_def)


section \<open>The claims\<close>

text \<open>
  Claim C1. On an active cart that contains an item for product \<open>P\<close>, \<^verbatim>\<open>addItemToCart\<close>
  with product id \<open>P\<close> and an integer quantity \<open>q\<close> between 1 and 99 is claimed to return a
  cart with exactly one item for \<open>P\<close>. The merge branch updates the first item for \<open>P\<close> and
  leaves the others (lemma \<open>addItemToCart_merge_unique\<close> above gives the claimed result when
  that item is the only one for \<open>P\<close>), but the operations do not keep product ids unique:
  the reachable cart with two items for "p1", obtained by adding "p1" and then " p1", is
  active and contains an item for "p1", and adding 3 of "p1" returns a cart that still has
  two items for "p1", with quantities 4 and 1.
\<close>
theorem addItemToCart_merge_two_items_for_product:
  "reachable (exampleCart Active
       [exampleItem ''item-1'' ''p1'' 1000 1, exampleItem ''item-2'' ''p1'' 1000 1]) \<and>
   status (exampleCart Active
       [exampleItem ''item-1'' ''p1'' 1000 1, exampleItem ''item-2'' ''p1'' 1000 1]) = Active \<and>
   addItemToCart 0 0 ''item-3''
     (exampleCart Active
        [exampleItem ''item-1'' ''p1'' 1000 1, exampleItem ''item-2'' ''p1'' 1000 1])
     (exampleInput ''p1'' 3) =
     Inr (exampleCart Active
            [exampleItem ''item-1'' ''p1'' 1000 4, exampleItem ''item-2'' ''p1'' 1000 1]) \<and>
   filter (\<lambda>item. productIdValue (productId item) = ''p1'')
     (items (exampleCart Active
               [exampleItem ''item-1'' ''p1'' 1000 4, exampleItem ''item-2'' ''p1'' 1000 1])) =
     [exampleItem ''item-1'' ''p1'' 1000 4, exampleItem ''item-2'' ''p1'' 1000 1]"
proof -
  have "reachable (exampleCart Active [])"
    using createCart_example by (rule r_create)
  then have "reachable (exampleCart Active [exampleItem ''item-1'' ''p1'' 1000 1])"
    using addItemToCart_example_p1 by (rule r_add)
  then have r: "reachable (exampleCart Active
            [exampleItem ''item-1'' ''p1'' 1000 1, exampleItem ''item-2'' ''p1'' 1000 1])"
    using addItemToCart_example_p1_untrimmed by (rule r_add)
  have s: "status (exampleCart Active
       [exampleItem ''item-1'' ''p1'' 1000 1, exampleItem ''item-2'' ''p1'' 1000 1]) = Active"
    by (simp add: exampleCart_def)
  have f: "filter (\<lambda>item. productIdValue (productId item) = ''p1'')
     (items (exampleCart Active
               [exampleItem ''item-1'' ''p1'' 1000 4, exampleItem ''item-2'' ''p1'' 1000 1])) =
     [exampleItem ''item-1'' ''p1'' 1000 4, exampleItem ''item-2'' ''p1'' 1000 1]"
    by (simp add: exampleCart_def exampleItem_def)
  from r s f addItemToCart_example_p1_again show ?thesis by blast
qed


text \<open>
  Claim C2. Every cart reachable from \<^verbatim>\<open>createCart\<close> through successful calls of
  \<^verbatim>\<open>addItemToCart\<close>, \<^verbatim>\<open>removeItemFromCart\<close>, \<^verbatim>\<open>updateItemQuantity\<close>, \<^verbatim>\<open>clearCart\<close> and
  \<^verbatim>\<open>checkout\<close> has at most 20 items (lemma \<open>reachable_length\<close> above) and is claimed
  to hold at most one item per product id. The code does not keep the second half:
  \<^verbatim>\<open>addItemToCart\<close> compares the product ids of the items, which \<^verbatim>\<open>createProductId\<close> has
  trimmed, with the raw \<^verbatim>\<open>input.productId\<close>. The theorem runs the code on the session
  "session-123": adding product "p1" and then product " p1" (with a leading space) gives a
  reachable cart with two items whose product id is "p1".
\<close>
theorem addItemToCart_untrimmed_duplicate:
  "createCart 0 0 ''session-123'' USD = Inr (exampleCart Active []) \<and>
   addItemToCart 0 0 ''item-1'' (exampleCart Active []) (exampleInput ''p1'' 1) =
     Inr (exampleCart Active [exampleItem ''item-1'' ''p1'' 1000 1]) \<and>
   addItemToCart 0 0 ''item-2'' (exampleCart Active [exampleItem ''item-1'' ''p1'' 1000 1])
     (exampleInput '' p1'' 1) =
     Inr (exampleCart Active
            [exampleItem ''item-1'' ''p1'' 1000 1, exampleItem ''item-2'' ''p1'' 1000 1]) \<and>
   reachable (exampleCart Active
            [exampleItem ''item-1'' ''p1'' 1000 1, exampleItem ''item-2'' ''p1'' 1000 1]) \<and>
   map (\<lambda>item. productIdValue (productId item))
     (items (exampleCart Active
            [exampleItem ''item-1'' ''p1'' 1000 1, exampleItem ''item-2'' ''p1'' 1000 1])) =
     [''p1'', ''p1'']"
proof -
  have "reachable (exampleCart Active [])"
    using createCart_example by (rule r_create)
  then have "reachable (exampleCart Active [exampleItem ''item-1'' ''p1'' 1000 1])"
    using addItemToCart_example_p1 by (rule r_add)
  then have "reachable (exampleCart Active
            [exampleItem ''item-1'' ''p1'' 1000 1, exampleItem ''item-2'' ''p1'' 1000 1])"
    using addItemToCart_example_p1_untrimmed by (rule r_add)
  moreover have "map (\<lambda>item. productIdValue (productId item))
     (items (exampleCart Active
            [exampleItem ''item-1'' ''p1'' 1000 1, exampleItem ''item-2'' ''p1'' 1000 1])) =
     [''p1'', ''p1'']"
    by (simp add: exampleCart_def exampleItem_def)
  ultimately show ?thesis
    using createCart_example addItemToCart_example_p1 addItemToCart_example_p1_untrimmed
    by blast
qed


text \<open>
  Claim C3, as amended. \<^verbatim>\<open>checkout\<close> on an empty active cart fails with "Cannot checkout
  an empty cart" (\<^verbatim>\<open>EmptyCart\<close>); on a cart whose status is not active it fails with "Cart
  has already been checked out" (\<^verbatim>\<open>CartAlreadyCheckedOut\<close>), the same error for the
  statuses checked_out and abandoned; on a non-empty active cart it returns the cart with
  status checked_out and the time of the update, the items and every other field unchanged.
\<close>
theorem checkout_preconditions:
  "(status cart = Active \<and> items cart = [] \<longrightarrow>
      checkout updated cart = Inl (Error ''Cannot checkout an empty cart'')) \<and>
   (status cart \<noteq> Active \<longrightarrow>
      checkout updated cart = Inl (Error ''Cart has already been checked out'')) \<and>
   (status cart = Active \<and> items cart \<noteq> [] \<longrightarrow>
      checkout updated cart = Inr (cart\<lparr>status := Checked_out, updatedAt := updated\<rparr>))"
  by (simp add: checkout_def canCheckout_def isCartEmpty_def)

theorem checkout_preconditions_witness:
  "checkout 5 (exampleCart Active []) = Inl (Error ''Cannot checkout an empty cart'') \<and>
   checkout 5 (exampleCart Abandoned []) = Inl (Error ''Cart has already been checked out'') \<and>
   checkout 5 (exampleCart Active [exampleItem ''item-1'' ''prod-001'' 1000 1]) =
     Inr (exampleCart Active [exampleItem ''item-1'' ''prod-001'' 1000 1]
            \<lparr>status := Checked_out, updatedAt := 5\<rparr>)"
  using checkout_preconditions [of "exampleCart Active []" 5]
    checkout_preconditions [of "exampleCart Abandoned []" 5]
    checkout_preconditions [of "exampleCart Active [exampleItem ''item-1'' ''prod-001'' 1000 1]" 5]
  by (simp add: exampleCart_def)

theorem checkout_error_not_specific_counterexample:
  "status (exampleCart Checked_out [exampleItem ''item-1'' ''prod-001'' 1000 1]) = Checked_out \<and>
   status (exampleCart Abandoned [exampleItem ''item-1'' ''prod-001'' 1000 1]) = Abandoned \<and>
   checkout 5 (exampleCart Checked_out [exampleItem ''item-1'' ''prod-001'' 1000 1]) =
     Inl (Error ''Cart has already been checked out'') \<and>
   checkout 5 (exampleCart Abandoned [exampleItem ''item-1'' ''prod-001'' 1000 1]) =
     Inl (Error ''Cart has already been checked out'')"
  by (simp add: checkout_def canCheckout_def exampleCart_def)


text \<open>
  Claim C4. On a cart whose status is not active, each of the mutators
  \<^verbatim>\<open>addItemToCart\<close>, \<^verbatim>\<open>removeItemFromCart\<close>, \<^verbatim>\<open>updateItemQuantity\<close> and \<^verbatim>\<open>clearCart\<close>
  fails, for every input, with the error of \<^verbatim>\<open>assertCartIsActive\<close> (the spec's
  \<^verbatim>\<open>CartNotActive\<close>: "Cannot modify a checked out cart" or "Cannot modify an abandoned
  cart"). The result is an error, so no cart is produced; the operations are functions
  of their arguments, so the cart they were given is what it was.
\<close>
theorem mutators_reject_inactive_cart:
  assumes "status cart \<noteq> Active"
  shows "let e = (if status cart = Checked_out then Error ''Cannot modify a checked out cart''
                  else Error ''Cannot modify an abandoned cart'')
         in addItemToCart added updated uuidv4 cart input = Inl e \<and>
            removeItemFromCart updated cart iid = Inl e \<and>
            updateItemQuantity updated cart iid q = Inl e \<and>
            clearCart updated cart = Inl e"
proof -
  have "assertCartIsActive cart =
          Inl (if status cart = Checked_out then Error ''Cannot modify a checked out cart''
               else Error ''Cannot modify an abandoned cart'')"
    using assms by (cases "status cart") (simp_all add: assertCartIsActive_def)
  then show ?thesis
    by (simp add: addItemToCart_def removeItemFromCart_def updateItemQuantity_def clearCart_def)
qed

theorem mutators_reject_inactive_cart_witness:
  "status (exampleCart Checked_out [exampleItem ''item-1'' ''prod-001'' 1000 1]) \<noteq> Active \<and>
   addItemToCart 1 2 ''item-2'' (exampleCart Checked_out [exampleItem ''item-1'' ''prod-001'' 1000 1])
     (exampleInput ''prod-002'' 1) = Inl (Error ''Cannot modify a checked out cart'') \<and>
   removeItemFromCart 2 (exampleCart Checked_out [exampleItem ''item-1'' ''prod-001'' 1000 1])
     ''item-1'' = Inl (Error ''Cannot modify a checked out cart'') \<and>
   updateItemQuantity 2 (exampleCart Checked_out [exampleItem ''item-1'' ''prod-001'' 1000 1])
     ''item-1'' 5 = Inl (Error ''Cannot modify a checked out cart'') \<and>
   clearCart 2 (exampleCart Checked_out [exampleItem ''item-1'' ''prod-001'' 1000 1])
     = Inl (Error ''Cannot modify a checked out cart'') \<and>
   status (exampleCart Abandoned []) \<noteq> Active \<and>
   addItemToCart 1 2 ''item-2'' (exampleCart Abandoned []) (exampleInput ''prod-002'' 1) =
     Inl (Error ''Cannot modify an abandoned cart'') \<and>
   clearCart 2 (exampleCart Abandoned []) = Inl (Error ''Cannot modify an abandoned cart'')"
  using mutators_reject_inactive_cart
    [of "exampleCart Checked_out [exampleItem ''item-1'' ''prod-001'' 1000 1]"
        1 2 "''item-2''" "exampleInput ''prod-002'' 1" "''item-1''" 5]
    mutators_reject_inactive_cart
    [of "exampleCart Abandoned []" 1 2 "''item-2''" "exampleInput ''prod-002'' 1" "''item-1''" 5]
  by (simp add: exampleCart_def Let_def)


text \<open>
  Claim C5. Every Money value produced by the core is claimed to have a non-negative
  integer amount. The operations that go through \<^verbatim>\<open>createMoney\<close> keep this (lemma
  \<open>validated_money_operations\<close> above); \<^verbatim>\<open>createCheckoutResult\<close> builds its three Money
  values as object literals and does not. The theorem runs it on two inputs. With one
  item of 1000 and the tax rate \<open>-0.5\<close> the tax is a Money of amount \<open>-500\<close>. With two items
  priced \<open>2 ^ 1023\<close>, a price that \<^verbatim>\<open>createMoney\<close> accepts, and no tax rate, the subtotal
  is a Money of amount \<^verbatim>\<open>Infinity\<close> and the tax and the total have the amount \<^verbatim>\<open>NaN\<close>.
\<close>
theorem createCheckoutResult_invalid_money:
  "createCheckoutResult 9
     (exampleCheckoutInput (exampleCart Checked_out [exampleItem ''item-1'' ''prod-001'' 1000 1])
        (Some (Finite (- 1 / 2)))) =
     Inr \<lparr>orderId = ''order-1'', result_sessionId = ''session-123'',
          result_items = [\<lparr>line_productId = ''prod-001'', line_productName = ''Test Product'',
                           line_quantity = 1, line_unitPriceInCents = 1000,
                           lineTotalInCents = 1000\<rparr>],
          subtotal = \<lparr>literalAmount = Finite 1000, literalCurrency = USD\<rparr>,
          tax = \<lparr>literalAmount = Finite (- 500), literalCurrency = USD\<rparr>,
          total = \<lparr>literalAmount = Finite 500, literalCurrency = USD\<rparr>,
          itemCount = Finite 1, checkoutAt = 9\<rparr> \<and>
   \<not> validAmount64 (Finite (- 500)) \<and>
   createMoney hugePrice USD = Inr \<lparr>amount = hugePrice, currency = USD\<rparr> \<and>
   createCheckoutResult 9
     (exampleCheckoutInput
        (exampleCart Checked_out
           [exampleItem ''item-1'' ''prod-001'' hugePrice 1,
            exampleItem ''item-2'' ''prod-002'' hugePrice 1])
        None) =
     Inr \<lparr>orderId = ''order-1'', result_sessionId = ''session-123'',
          result_items = [\<lparr>line_productId = ''prod-001'', line_productName = ''Test Product'',
                           line_quantity = 1, line_unitPriceInCents = hugePrice,
                           lineTotalInCents = hugePrice\<rparr>,
                          \<lparr>line_productId = ''prod-002'', line_productName = ''Test Product'',
                           line_quantity = 1, line_unitPriceInCents = hugePrice,
                           lineTotalInCents = hugePrice\<rparr>],
          subtotal = \<lparr>literalAmount = PosInfinity, literalCurrency = USD\<rparr>,
          tax = \<lparr>literalAmount = NaN, literalCurrency = USD\<rparr>,
          total = \<lparr>literalAmount = NaN, literalCurrency = USD\<rparr>,
          itemCount = Finite 2, checkoutAt = 9\<rparr> \<and>
   \<not> validAmount64 PosInfinity \<and> \<not> validAmount64 NaN"
proof -
  have 1: "\<not> validAmount64 (Finite (- 500))" "\<not> validAmount64 PosInfinity" "\<not> validAmount64 NaN"
    by (simp_all add: validAmount64_def)
  have 2: "createMoney hugePrice USD = Inr \<lparr>amount = hugePrice, currency = USD\<rparr>"
    by (simp add: createMoney_def hugePrice_facts)
  from 1 2 createCheckoutResult_example_negative createCheckoutResult_example_overflow
  show ?thesis by blast
qed


text \<open>
  Claim C6. On an active cart that holds exactly 20 items, \<^verbatim>\<open>addItemToCart\<close> with a
  product id that no item of the cart has fails with "Cart cannot have more than 20 unique
  items" (the spec's \<^verbatim>\<open>MaxItemsExceeded\<close>), whatever the rest of the input is. No cart is
  produced. The theorem does not need the 20 product ids of the cart to be distinct; the
  cart of the witness has 20 distinct ones.
\<close>
theorem addItemToCart_max_items:
  assumes "status cart = Active"
    and "length (items cart) = 20"
    and "input_productId input \<notin> set (map (\<lambda>item. productIdValue (productId item)) (items cart))"
  shows "addItemToCart added updated uuidv4 cart input =
           Inl (Error ''Cart cannot have more than 20 unique items'')"
proof -
  have "findIndex (\<lambda>item. productIdValue (productId item) = input_productId input) (items cart) = None"
    using assms(3) by (force simp: findIndex_None_iff)
  then show ?thesis
    using assms(1,2)
    by (simp add: addItemToCart_def assertCartIsActive_Active MAX_UNIQUE_ITEMS_def)
qed

theorem addItemToCart_max_items_witness:
  "status (exampleCart Active twentyItems) = Active \<and>
   length (items (exampleCart Active twentyItems)) = 20 \<and>
   distinct (map (\<lambda>item. productIdValue (productId item)) (items (exampleCart Active twentyItems))) \<and>
   ''prod-u'' \<notin> set (map (\<lambda>item. productIdValue (productId item)) (items (exampleCart Active twentyItems))) \<and>
   addItemToCart 1 2 ''item-u'' (exampleCart Active twentyItems) (exampleInput ''prod-u'' 1) =
     Inl (Error ''Cart cannot have more than 20 unique items'')"
proof -
  have 1: "status (exampleCart Active twentyItems) = Active"
    by (simp add: exampleCart_def)
  have 2: "length (items (exampleCart Active twentyItems)) = 20"
    by (simp add: exampleCart_def twentyItems_def)
  have 3: "input_productId (exampleInput ''prod-u'' 1) \<notin>
             set (map (\<lambda>item. productIdValue (productId item)) (items (exampleCart Active twentyItems)))"
    by (simp add: exampleCart_def exampleInput_def twentyItems_ids)
  have 4: "distinct (map (\<lambda>item. productIdValue (productId item)) (items (exampleCart Active twentyItems)))"
    by (simp add: exampleCart_def twentyItems_ids)
  show ?thesis
    using addItemToCart_max_items [OF 1 2 3, of 1 2 "''item-u''"] 1 2 3 4
    by (simp add: exampleInput_def)
qed









text \<open>
  Claim C9. Validation is idempotent as a round trip: whenever \<^verbatim>\<open>createProductId\<close>,
  \<^verbatim>\<open>createSessionId\<close>, \<^verbatim>\<open>createQuantity\<close> or \<^verbatim>\<open>createMoney\<close> returns a value
  object, the same function applied to the value carried by that object returns an equal
  object.
\<close>
theorem create_round_trip:
  "(createProductId rawP = Inr p \<longrightarrow> createProductId (productIdValue p) = Inr p) \<and>
   (createSessionId rawS = Inr s \<longrightarrow> createSessionId (sessionIdValue s) = Inr s) \<and>
   (createQuantity v = Inr q \<longrightarrow> createQuantity (quantityValue q) = Inr q) \<and>
   (createMoney cents cur = Inr m \<longrightarrow> createMoney (amount m) (currency m) = Inr m)"
proof (intro conjI impI)
  assume "createProductId rawP = Inr p"
  then have "PRODUCT_ID_PATTERN_test (productIdValue p)" using createProductId_Inr by blast
  then show "createProductId (productIdValue p) = Inr p" by (simp add: createProductId_valid)
next
  assume "createSessionId rawS = Inr s"
  then have "SESSION_ID_PATTERN_test (sessionIdValue s)" using createSessionId_Inr by blast
  then show "createSessionId (sessionIdValue s) = Inr s" by (simp add: createSessionId_valid)
next
  assume "createQuantity v = Inr q"
  then show "createQuantity (quantityValue q) = Inr q"
    by (auto simp: createQuantity_def split: if_splits)
next
  assume "createMoney cents cur = Inr m"
  then show "createMoney (amount m) (currency m) = Inr m"
    by (auto simp: createMoney_def split: if_splits)
qed

theorem create_round_trip_witness:
  "createProductId '' prod-001 '' = Inr \<lparr>productIdValue = ''prod-001''\<rparr> \<and>
   createProductId ''prod-001'' = Inr \<lparr>productIdValue = ''prod-001''\<rparr> \<and>
   createSessionId ''session-123'' = Inr \<lparr>sessionIdValue = ''session-123''\<rparr> \<and>
   createQuantity 5 = Inr \<lparr>quantityValue = 5\<rparr> \<and>
   createMoney 1000 EUR = Inr \<lparr>amount = 1000, currency = EUR\<rparr>"
  using create_round_trip [of "'' prod-001 ''" "\<lparr>productIdValue = ''prod-001''\<rparr>"
      "''session-123''" "\<lparr>sessionIdValue = ''session-123''\<rparr>" 5 "\<lparr>quantityValue = 5\<rparr>"
      1000 EUR "\<lparr>amount = 1000, currency = EUR\<rparr>"] createProductId_example createSessionId_example
      createQuantity_example createMoney_example
  by simp


text \<open>
  Claim C10. In every cart reachable from \<^verbatim>\<open>createCart\<close> through successful calls of the
  operations, the currency of the unit price of every item is the currency of the cart,
  since \<^verbatim>\<open>addItemToCart\<close> builds a new item with the cart's currency whatever currency the
  input carries; and \<^verbatim>\<open>calculateCartTotal\<close> on such a cart never fails with the currency
  mismatch error of \<^verbatim>\<open>addMoney\<close>.
\<close>
theorem reachable_currency_consistent:
  assumes "reachable cart"
  shows "(\<forall>item\<in>set (items cart). currency (unitPrice item) = cartCurrency cart) \<and>
         (\<forall>a b. calculateCartTotal cart \<noteq> Inl (currencyMismatchAdd a b))"
proof -
  from reachable_invariant [OF assms] have c: "currencyConsistent cart"
    by (simp add: cartInvariant_def)
  then show ?thesis
    using calculateCartTotal_no_mismatch by (simp add: currencyConsistent_def)
qed

theorem reachable_currency_consistent_witness:
  "reachable (exampleCart Active [exampleItem ''item-1'' ''prod-001'' 1000 2]) \<and>
   addItemToCart 0 0 ''item-1'' (exampleCart Active [])
     ((exampleInput ''prod-001'' 2)\<lparr>input_currency := Some EUR\<rparr>) =
     Inr (exampleCart Active [exampleItem ''item-1'' ''prod-001'' 1000 2]) \<and>
   cartCurrency (exampleCart Active [exampleItem ''item-1'' ''prod-001'' 1000 2]) = USD \<and>
   currency (unitPrice (exampleItem ''item-1'' ''prod-001'' 1000 2)) = USD \<and>
   calculateCartTotal (exampleCart Active [exampleItem ''item-1'' ''prod-001'' 1000 2]) \<noteq>
     Inl (currencyMismatchAdd USD EUR)"
proof -
  have "reachable (exampleCart Active [])"
    using createCart_example by (rule r_create)
  then have r: "reachable (exampleCart Active [exampleItem ''item-1'' ''prod-001'' 1000 2])"
    using addItemToCart_example_EUR by (rule r_add)
  from reachable_currency_consistent [OF r]
  have "calculateCartTotal (exampleCart Active [exampleItem ''item-1'' ''prod-001'' 1000 2]) \<noteq>
     Inl (currencyMismatchAdd USD EUR)"
    and "\<forall>item\<in>set (items (exampleCart Active [exampleItem ''item-1'' ''prod-001'' 1000 2])).
           currency (unitPrice item) =
           cartCurrency (exampleCart Active [exampleItem ''item-1'' ''prod-001'' 1000 2])"
    by blast+
  then show ?thesis
    using r addItemToCart_example_EUR by (simp add: exampleCart_def)
qed

end
